theory Spec2Isabelle
  imports Complex_Main
begin

section \<open>The dual-model AI service\<close>

text \<open>
  A shallow embedding of the class \<^verbatim>\<open>AIService\<close>: \<^verbatim>\<open>getOpenAIResponse\<close>,
  \<^verbatim>\<open>getClaudeResponse\<close>, \<^verbatim>\<open>selectBestResponse\<close> and \<^verbatim>\<open>getDualAnalysis\<close>.
  The two SDK clients and \<^verbatim>\<open>JSON.parse\<close> are not code of the repository: they are
  parameters of the model (the record \<open>env\<close>), and every theorem holds for all of them.
  A settled promise is a value of a sum type: \<open>Inl\<close> the rejection reason (the thrown
  value), \<open>Inr\<close> the fulfilment value. Every outbound SDK call is appended to a trace,
  in the order the calls are issued. The calls to \<^verbatim>\<open>logger\<close> are left out, but for the
  property reads in their arguments, which can throw.

  An SDK call answers as a function of its request. Within one run of
  \<^verbatim>\<open>getDualAnalysis\<close> this is no restriction: the two requests to OpenAI, for the
  generation and for the judge, always differ (\<open>judge_request_differs\<close> below).
\<close>

subsection \<open>JavaScript values\<close>

text \<open>A property typed \<^verbatim>\<open>string | null | undefined\<close>.\<close>

datatype js_text = Undefined | Null | Str string

text \<open>What a template literal \<^verbatim>\<open>`${v}`\<close> and \<^verbatim>\<open>JSON.parse(v)\<close> make of such a value.\<close>

fun ToString :: "js_text \<Rightarrow> string" where
  "ToString Undefined = ''undefined''"
| "ToString Null = ''null''"
| "ToString (Str s) = s"

text \<open>
  The values \<^verbatim>\<open>JSON.parse\<close> returns, and \<^verbatim>\<open>undefined\<close> for a property that is not
  there. A number is read as the real it denotes; the code only passes numbers on.
\<close>

datatype js_val =
    JUndefined
  | JNull
  | JBool bool
  | JNum real
  | JStr string
  | JArr "js_val list"
  | JObj "(string \<times> js_val) list"

text \<open>
  A thrown value: \<^verbatim>\<open>undefined\<close>, \<^verbatim>\<open>null\<close>, or any other value, of which the code
  reads only the property \<^verbatim>\<open>message\<close> (\<open>Undefined\<close> for a thrown string or a plain
  object without one; an \<^verbatim>\<open>Error\<close> instance has \<open>Str\<close> of its text).
\<close>

datatype js_exn = ThrownUndefined | ThrownNull | Thrown js_text

text \<open>
  The TypeError of reading property \<open>prop\<close> of \<^verbatim>\<open>undefined\<close> or \<^verbatim>\<open>null\<close>, with the
  message text of Node.js.
\<close>

definition TypeError_reading :: "string \<Rightarrow> string \<Rightarrow> js_exn" where
  "TypeError_reading base prop =
     Thrown (Str (''Cannot read properties of '' @ base @ '' (reading '' @ [CHR 0x27] @ prop @ [CHR 0x27] @ '')''))"

definition SyntaxError :: "string \<Rightarrow> js_exn" where
  "SyntaxError text = Thrown (Str text)"

text \<open>\<^verbatim>\<open>error.message\<close>: throws when the thrown value is \<^verbatim>\<open>undefined\<close> or \<^verbatim>\<open>null\<close>.\<close>

fun message :: "js_exn \<Rightarrow> js_exn + js_text" where
  "message ThrownUndefined = Inl (TypeError_reading ''undefined'' ''message'')"
| "message ThrownNull = Inl (TypeError_reading ''null'' ''message'')"
| "message (Thrown m) = Inr m"

text \<open>
  \<^verbatim>\<open>parsed.selected\<close>, \<^verbatim>\<open>parsed.reasoning\<close>, \<^verbatim>\<open>parsed.scores\<close>: reading a property
  of a parsed value. The three names the code reads are no property of a number, a boolean,
  a string or an array, nor of their prototypes, so only an object can hold them.
\<close>

definition own_prop :: "(string \<times> js_val) list \<Rightarrow> string \<Rightarrow> js_val" where
  "own_prop kvs p = (case map_of kvs p of None \<Rightarrow> JUndefined | Some v \<Rightarrow> v)"

fun get_prop :: "js_val \<Rightarrow> string \<Rightarrow> js_exn + js_val" where
  "get_prop JUndefined p = Inl (TypeError_reading ''undefined'' p)"
| "get_prop JNull p = Inl (TypeError_reading ''null'' p)"
| "get_prop (JObj kvs) p = Inr (own_prop kvs p)"
| "get_prop v p = Inr JUndefined"

text \<open>
  \<^verbatim>\<open>a || d\<close> on an optional string and on an optional number (\<open>None\<close> is an absent
  option): the empty string and the number 0 are falsy, as \<^verbatim>\<open>undefined\<close> is. (So is NaN,
  which the reals do not have.) \<^verbatim>\<open>a || b || d\<close> is \<open>str_or a (str_or b d)\<close>.
\<close>

fun str_or :: "string option \<Rightarrow> string \<Rightarrow> string" where
  "str_or None d = d"
| "str_or (Some s) d = (if s = [] then d else s)"

fun num_or :: "real option \<Rightarrow> real \<Rightarrow> real" where
  "num_or None d = d"
| "num_or (Some x) d = (if x = 0 then d else x)"

fun truthy :: "bool option \<Rightarrow> bool" where
  "truthy None = False"
| "truthy (Some b) = b"

subsection \<open>Requests, responses and results\<close>

text \<open>The \<^verbatim>\<open>options\<close> argument; \<^verbatim>\<open>{}\<close> has every field \<open>None\<close>.\<close>

record options =
  model :: "string option"
  temperature :: "real option"
  maxTokens :: "real option"
  selectBest :: "bool option"
  selectionCriteria :: "string option"

definition no_options :: options where
  "no_options = \<lparr>model = None, temperature = None, maxTokens = None,
     selectBest = None, selectionCriteria = None\<rparr>"

text \<open>A chat message \<^verbatim>\<open>{ role, content }\<close> is the pair of its role and its content.\<close>

type_synonym chat_message = "string \<times> string"

text \<open>The argument of \<^verbatim>\<open>openai.chat.completions.create\<close>.\<close>

record openai_request =
  model :: string
  messages :: "chat_message list"
  temperature :: real
  max_tokens :: real

text \<open>The argument of \<^verbatim>\<open>anthropic.messages.create\<close>.\<close>

record anthropic_request =
  model :: string
  max_tokens :: real
  system :: string
  messages :: "chat_message list"

record openai_usage =
  prompt_tokens :: nat
  completion_tokens :: nat
  total_tokens :: nat

text \<open>
  The responses have the fields the code reads, typed as the SDKs type them. A choice of a
  chat completion: \<^verbatim>\<open>message.content\<close> (a string or \<^verbatim>\<open>null\<close>) and \<^verbatim>\<open>finish_reason\<close>.
  The list of choices, like the list of content blocks below, may be empty: reading a
  property of its first element then throws.
\<close>

record choice =
  message_content :: js_text
  finish_reason :: js_text

record openai_response =
  choices :: "choice list"
  usage :: "openai_usage option"

record anthropic_usage =
  input_tokens :: nat
  output_tokens :: nat

text \<open>A content block of a message; \<^verbatim>\<open>text\<close> is undefined on a block that is not text.\<close>

record content_block =
  block_text :: js_text

record anthropic_response =
  content :: "content_block list"
  model :: string
  usage :: anthropic_usage
  stop_reason :: js_text

text \<open>What \<^verbatim>\<open>getOpenAIResponse\<close> and \<^verbatim>\<open>getClaudeResponse\<close> return.\<close>

record openai_result =
  content :: js_text
  model :: string
  usage :: "openai_usage option"
  finishReason :: js_text

record claude_result =
  content :: js_text
  model :: string
  usage :: anthropic_usage
  stopReason :: js_text

text \<open>
  What \<^verbatim>\<open>selectBestResponse\<close> returns; \<open>scores = None\<close> is an object without the key
  \<^verbatim>\<open>scores\<close>, \<open>scores = Some JUndefined\<close> one where the key holds \<^verbatim>\<open>undefined\<close>.
\<close>

record selection =
  winner :: string
  content :: js_text
  reasoning :: js_val
  scores :: "js_val option"

text \<open>
  What \<^verbatim>\<open>getDualAnalysis\<close> returns; \<open>None\<close> in a result slot is \<^verbatim>\<open>null\<close>,
  \<open>selected = None\<close> is an object without the key \<^verbatim>\<open>selected\<close>.
\<close>

record dual_result =
  openai :: "openai_result option"
  claude :: "claude_result option"
  errors :: "string \<rightharpoonup> js_text"
  selected :: "selection option"

text \<open>
  The service instance and its runtime: the two SDK calls, \<^verbatim>\<open>this.fineTunedModel\<close>
  (\<open>None\<close> is \<^verbatim>\<open>null\<close>) and \<^verbatim>\<open>JSON.parse\<close>, which returns a value or throws a
  SyntaxError (\<open>Inl\<close> its message).
\<close>

record env =
  openai_create :: "openai_request \<Rightarrow> js_exn + openai_response"
  anthropic_create :: "anthropic_request \<Rightarrow> js_exn + anthropic_response"
  fineTunedModel :: "string option"
  JSON_parse :: "string \<Rightarrow> string + js_val"

datatype api_call = OpenAI_call openai_request | Anthropic_call anthropic_request

type_synonym trace = "api_call list"

subsection \<open>The backend calls\<close>

text \<open>
  \<^verbatim>\<open>catch (error) { logger.error('... API error:', error.message); throw error; }\<close>:
  the thrown value goes on, unless reading its message throws.
\<close>

definition catch_log_rethrow :: "js_exn \<Rightarrow> js_exn" where
  "catch_log_rethrow error = (case message error of Inl e \<Rightarrow> e | Inr m \<Rightarrow> error)"

definition openai_model :: "env \<Rightarrow> options \<Rightarrow> string" where
  "openai_model E opts =
     str_or (fineTunedModel E) (str_or (options.model opts) ''gpt-4-turbo-preview'')"

text \<open>The object literal passed to \<^verbatim>\<open>this.openai.chat.completions.create\<close>.\<close>

definition openai_params :: "env \<Rightarrow> string \<Rightarrow> string \<Rightarrow> options \<Rightarrow> openai_request" where
  "openai_params E prompt systemPrompt opts =
     \<lparr>openai_request.model = openai_model E opts,
      openai_request.messages = [(''system'', systemPrompt), (''user'', prompt)],
      openai_request.temperature = num_or (options.temperature opts) (7 / 10),
      openai_request.max_tokens = num_or (maxTokens opts) 2000\<rparr>"

definition getOpenAIResponse ::
  "env \<Rightarrow> string \<Rightarrow> string \<Rightarrow> options \<Rightarrow> trace \<Rightarrow> (js_exn + openai_result) \<times> trace" where
  "getOpenAIResponse E prompt systemPrompt opts tr =
     (let model = openai_model E opts;
          request = openai_params E prompt systemPrompt opts;
          tr' = tr @ [OpenAI_call request]
      in case openai_create E request of
           Inl error \<Rightarrow> (Inl (catch_log_rethrow error), tr')
         | Inr response \<Rightarrow>
             (case choices response of
                [] \<Rightarrow> (Inl (catch_log_rethrow (TypeError_reading ''undefined'' ''message'')), tr')
              | c # cs \<Rightarrow>
                  (Inr \<lparr>openai_result.content = message_content c,
                        openai_result.model = model,
                        openai_result.usage = openai_response.usage response,
                        finishReason = finish_reason c\<rparr>, tr')))"

text \<open>The object literal passed to \<^verbatim>\<open>this.anthropic.messages.create\<close>.\<close>

definition anthropic_params :: "string \<Rightarrow> string \<Rightarrow> options \<Rightarrow> anthropic_request" where
  "anthropic_params prompt systemPrompt opts =
     \<lparr>anthropic_request.model = str_or (options.model opts) ''claude-3-5-sonnet-20241022'',
      anthropic_request.max_tokens = num_or (maxTokens opts) 2000,
      system = systemPrompt,
      anthropic_request.messages = [(''user'', prompt)]\<rparr>"

definition getClaudeResponse ::
  "env \<Rightarrow> string \<Rightarrow> string \<Rightarrow> options \<Rightarrow> trace \<Rightarrow> (js_exn + claude_result) \<times> trace" where
  "getClaudeResponse E prompt systemPrompt opts tr =
     (let request = anthropic_params prompt systemPrompt opts;
          tr' = tr @ [Anthropic_call request]
      in case anthropic_create E request of
           Inl error \<Rightarrow> (Inl (catch_log_rethrow error), tr')
         | Inr response \<Rightarrow>
             (case anthropic_response.content response of
                [] \<Rightarrow> (Inl (catch_log_rethrow (TypeError_reading ''undefined'' ''text'')), tr')
              | b # bs \<Rightarrow>
                  (Inr \<lparr>claude_result.content = block_text b,
                        claude_result.model = anthropic_response.model response,
                        claude_result.usage =
                          \<lparr>input_tokens = input_tokens (anthropic_response.usage response),
                           output_tokens = output_tokens (anthropic_response.usage response)\<rparr>,
                        stopReason = stop_reason response\<rparr>, tr')))"

subsection \<open>The judge\<close>

definition default_criteria :: string where
  "default_criteria = ''accuracy, helpfulness, clarity, completeness''"

definition selectionPrompt ::
  "openai_result \<Rightarrow> claude_result \<Rightarrow> string \<Rightarrow> string option \<Rightarrow> string" where
  \<open>selectionPrompt openaiResult claudeResult originalPrompt criteria =
     ''\<newline>You are an expert evaluator. Compare these two AI responses and select the better one.\<newline>'' @
     ''\<newline>Original Prompt: '' @ originalPrompt @ ''\<newline>'' @
     ''\<newline>Response A (OpenAI):\<newline>'' @ ToString (openai_result.content openaiResult) @ ''\<newline>'' @
     ''\<newline>Response B (Claude):\<newline>'' @ ToString (claude_result.content claudeResult) @ ''\<newline>'' @
     ''\<newline>Evaluation Criteria: '' @ str_or criteria default_criteria @ ''\<newline>'' @
     ''\<newline>Respond with JSON only:\<newline>'' @
     ''{\<newline>'' @
     ''  "selected": "A" or "B",\<newline>'' @
     ''  "reasoning": "brief explanation",\<newline>'' @
     ''  "scores": {\<newline>'' @
     ''    "A": { "accuracy": 1-10, "helpfulness": 1-10, "clarity": 1-10 },\<newline>'' @
     ''    "B": { "accuracy": 1-10, "helpfulness": 1-10, "clarity": 1-10 }\<newline>'' @
     ''  }\<newline>'' @
     ''}''\<close>

definition evaluator_system :: string where
  "evaluator_system = ''You are an impartial AI evaluator. Respond only with valid JSON.''"

text \<open>The options of the judge call: \<^verbatim>\<open>{ temperature: 0.3 }\<close>.\<close>

definition judge_options :: options where
  "judge_options = no_options\<lparr>options.temperature := Some (3 / 10)\<rparr>"

text \<open>The object of the \<^verbatim>\<open>catch\<close> branch: Claude's content, no key \<^verbatim>\<open>scores\<close>.\<close>

definition default_selection :: "claude_result \<Rightarrow> selection" where
  "default_selection claudeResult =
     \<lparr>winner = ''claude'',
      selection.content = claude_result.content claudeResult,
      reasoning = JStr ''Default selection due to evaluation error'',
      scores = None\<rparr>"

text \<open>
  The statements after the judge call inside \<^verbatim>\<open>try\<close>: \<^verbatim>\<open>JSON.parse\<close>, then the
  object literal, whose first property read throws on a parsed \<^verbatim>\<open>null\<close>.
\<close>

definition parse_evaluation ::
  "env \<Rightarrow> openai_result \<Rightarrow> claude_result \<Rightarrow> openai_result \<Rightarrow> js_exn + selection" where
  "parse_evaluation E openaiResult claudeResult evaluation =
     (case JSON_parse E (ToString (openai_result.content evaluation)) of
        Inl text \<Rightarrow> Inl (SyntaxError text)
      | Inr parsed \<Rightarrow>
          (case get_prop parsed ''selected'' of
             Inl e \<Rightarrow> Inl e
           | Inr sel \<Rightarrow>
               (case get_prop parsed ''reasoning'' of
                  Inl e \<Rightarrow> Inl e
                | Inr rsn \<Rightarrow>
                    (case get_prop parsed ''scores'' of
                       Inl e \<Rightarrow> Inl e
                     | Inr scs \<Rightarrow>
                         Inr \<lparr>winner = (if sel = JStr ''A'' then ''openai'' else ''claude''),
                              selection.content =
                                (if sel = JStr ''A'' then openai_result.content openaiResult
                                 else claude_result.content claudeResult),
                              reasoning = rsn,
                              scores = Some scs\<rparr>))))"

definition selectBestResponse ::
  "env \<Rightarrow> openai_result \<Rightarrow> claude_result \<Rightarrow> string \<Rightarrow> string option \<Rightarrow> trace
     \<Rightarrow> (js_exn + selection) \<times> trace" where
  "selectBestResponse E openaiResult claudeResult originalPrompt criteria tr =
     (case getOpenAIResponse E
             (selectionPrompt openaiResult claudeResult originalPrompt criteria)
             evaluator_system judge_options tr of
        (settled, tr') \<Rightarrow>
          (case (case settled of
                   Inl error \<Rightarrow> Inl error
                 | Inr evaluation \<Rightarrow> parse_evaluation E openaiResult claudeResult evaluation) of
             Inr outcome \<Rightarrow> (Inr outcome, tr')
           | Inl error \<Rightarrow>
               (case message error of
                  Inl e \<Rightarrow> (Inl e, tr')
                | Inr m \<Rightarrow> (Inr (default_selection claudeResult), tr'))))"

subsection \<open>The responder\<close>

text \<open>The slot of a settled promise: its value when fulfilled, \<^verbatim>\<open>null\<close> otherwise.\<close>

fun fulfilled_value :: "js_exn + 'a \<Rightarrow> 'a option" where
  "fulfilled_value (Inr v) = Some v"
| "fulfilled_value (Inl reason) = None"

text \<open>
  \<^verbatim>\<open>if (r.status === 'rejected') { results.errors[key] = r.reason.message; }\<close>
\<close>

fun record_error :: "string \<Rightarrow> js_exn + 'a \<Rightarrow> dual_result \<Rightarrow> js_exn + dual_result" where
  "record_error key (Inr v) results = Inr results"
| "record_error key (Inl reason) results =
     (case message reason of
        Inl e \<Rightarrow> Inl e
      | Inr m \<Rightarrow> Inr (results\<lparr>errors := (errors results)(key \<mapsto> m)\<rparr>))"

text \<open>
  \<^verbatim>\<open>if (options.selectBest && results.openai && results.claude)\<close>: a result object
  is truthy, \<^verbatim>\<open>null\<close> is not.
\<close>

definition select_if_both ::
  "env \<Rightarrow> string \<Rightarrow> options \<Rightarrow> dual_result \<Rightarrow> trace \<Rightarrow> (js_exn + dual_result) \<times> trace" where
  "select_if_both E prompt opts results tr =
     (if truthy (selectBest opts) then
        (case openai results of
           None \<Rightarrow> (Inr results, tr)
         | Some openaiResult \<Rightarrow>
             (case claude results of
                None \<Rightarrow> (Inr results, tr)
              | Some claudeResult \<Rightarrow>
                  (case selectBestResponse E openaiResult claudeResult prompt
                          (selectionCriteria opts) tr of
                     (Inl e, tr') \<Rightarrow> (Inl e, tr')
                   | (Inr outcome, tr') \<Rightarrow> (Inr (results\<lparr>selected := Some outcome\<rparr>), tr'))))
      else (Inr results, tr))"

text \<open>
  \<^verbatim>\<open>Promise.allSettled\<close> over the two calls: both requests are issued, OpenAI's first,
  before either settles, and each settles by itself.
\<close>

definition getDualAnalysis ::
  "env \<Rightarrow> string \<Rightarrow> string \<Rightarrow> options \<Rightarrow> trace \<Rightarrow> (js_exn + dual_result) \<times> trace" where
  "getDualAnalysis E prompt systemPrompt opts tr =
     (case getOpenAIResponse E prompt systemPrompt opts tr of
        (openaiResponse, tr1) \<Rightarrow>
          (case getClaudeResponse E prompt systemPrompt opts tr1 of
             (claudeResponse, tr2) \<Rightarrow>
               (case record_error ''openai'' openaiResponse
                       \<lparr>openai = fulfilled_value openaiResponse,
                        claude = fulfilled_value claudeResponse,
                        errors = Map.empty,
                        selected = None\<rparr> of
                  Inl e \<Rightarrow> (Inl e, tr2)
                | Inr results1 \<Rightarrow>
                    (case record_error ''claude'' claudeResponse results1 of
                       Inl e \<Rightarrow> (Inl e, tr2)
                     | Inr results2 \<Rightarrow> select_if_both E prompt opts results2 tr2))))"

text \<open>The two generation requests, in the order \<^verbatim>\<open>getDualAnalysis\<close> issues them.\<close>

definition generation_trace :: "env \<Rightarrow> string \<Rightarrow> string \<Rightarrow> options \<Rightarrow> trace \<Rightarrow> trace" where
  "generation_trace E p s opts tr =
     tr @ [OpenAI_call (openai_params E p s opts), Anthropic_call (anthropic_params p s opts)]"

text \<open>The request of the judge call.\<close>

definition judge_request ::
  "env \<Rightarrow> openai_result \<Rightarrow> claude_result \<Rightarrow> string \<Rightarrow> string option \<Rightarrow> openai_request" where
  "judge_request E a c p crit =
     openai_params E (selectionPrompt a c p crit) evaluator_system judge_options"

text \<open>The settled judge call of \<^verbatim>\<open>selectBestResponse\<close>.\<close>

abbreviation judge_call ::
  "env \<Rightarrow> openai_result \<Rightarrow> claude_result \<Rightarrow> string \<Rightarrow> string option \<Rightarrow> trace
     \<Rightarrow> js_exn + openai_result" where
  "judge_call E a c p crit tr \<equiv>
     fst (getOpenAIResponse E (selectionPrompt a c p crit) evaluator_system judge_options tr)"

subsection \<open>Sample runs\<close>

text \<open>
  Stub backends for the examples: a backend either rejects with a thrown value or answers
  with one text. The OpenAI stub tells the judge call from a generation call by its system
  instruction.
\<close>

definition sample_openai_response :: "string \<Rightarrow> openai_response" where
  "sample_openai_response txt =
     \<lparr>choices = [\<lparr>message_content = Str txt, finish_reason = Str ''stop''\<rparr>],
      openai_response.usage =
        Some \<lparr>prompt_tokens = 12, completion_tokens = 7, total_tokens = 19\<rparr>\<rparr>"

definition sample_anthropic_response :: "string \<Rightarrow> anthropic_response" where
  "sample_anthropic_response txt =
     \<lparr>anthropic_response.content = [\<lparr>block_text = Str txt\<rparr>],
      anthropic_response.model = ''claude-3-5-sonnet-20241022'',
      anthropic_response.usage = \<lparr>input_tokens = 12, output_tokens = 9\<rparr>,
      stop_reason = Str ''end_turn''\<rparr>"

definition verdict_A_text :: string where
  \<open>verdict_A_text =
     ''{"selected":"A","reasoning":"clearer","scores":{"A":{"accuracy":9,"helpfulness":8,"clarity":9},"B":{"accuracy":7,"helpfulness":8,"clarity":6}}}''\<close>

definition verdict_A :: js_val where
  "verdict_A =
     JObj [(''selected'', JStr ''A''), (''reasoning'', JStr ''clearer''),
           (''scores'', JObj
              [(''A'', JObj [(''accuracy'', JNum 9), (''helpfulness'', JNum 8), (''clarity'', JNum 9)]),
               (''B'', JObj [(''accuracy'', JNum 7), (''helpfulness'', JNum 8), (''clarity'', JNum 6)])])]"

definition verdict_B_text :: string where
  \<open>verdict_B_text = ''{"selected":"B","reasoning":"more complete"}''\<close>

definition verdict_B :: js_val where
  "verdict_B = JObj [(''selected'', JStr ''B''), (''reasoning'', JStr ''more complete'')]"

text \<open>
  \<^verbatim>\<open>JSON.parse\<close> on the replies of the examples: the two verdicts, the texts
  \<^verbatim>\<open>null\<close> and \<^verbatim>\<open>42\<close>, and prose, which is a SyntaxError. No example applies it
  to another text.
\<close>

definition JSON_parse_sample :: "string \<Rightarrow> string + js_val" where
  "JSON_parse_sample s =
     (if s = verdict_A_text then Inr verdict_A
      else if s = verdict_B_text then Inr verdict_B
      else if s = ''null'' then Inr JNull
      else if s = ''42'' then Inr (JNum 42)
      else Inl ''Unexpected token'')"

definition is_judge_request :: "openai_request \<Rightarrow> bool" where
  "is_judge_request r = ((''system'', evaluator_system) \<in> set (openai_request.messages r))"

definition sample_env :: "js_exn + string \<Rightarrow> js_exn + string \<Rightarrow> js_exn + string \<Rightarrow> env" where
  "sample_env gpt sonnet judge =
     \<lparr>openai_create =
        (\<lambda>r. map_sum id sample_openai_response (if is_judge_request r then judge else gpt)),
      anthropic_create = (\<lambda>r. map_sum id sample_anthropic_response sonnet),
      fineTunedModel = None,
      JSON_parse = JSON_parse_sample\<rparr>"

definition timeout_error :: js_exn where
  "timeout_error = Thrown (Str ''Request timed out.'')"

definition quota_error :: js_exn where
  "quota_error = Thrown (Str ''429 You exceeded your current quota'')"

definition select_options :: options where
  "select_options = no_options\<lparr>selectBest := Some True\<rparr>"

text \<open>The results of the two stub backends answering \<open>txt\<close>.\<close>

definition sample_openai_result :: "string \<Rightarrow> openai_result" where
  "sample_openai_result txt =
     \<lparr>openai_result.content = Str txt,
      openai_result.model = ''gpt-4-turbo-preview'',
      openai_result.usage =
        Some \<lparr>prompt_tokens = 12, completion_tokens = 7, total_tokens = 19\<rparr>,
      finishReason = Str ''stop''\<rparr>"

definition sample_claude_result :: "string \<Rightarrow> claude_result" where
  "sample_claude_result txt =
     \<lparr>claude_result.content = Str txt,
      claude_result.model = ''claude-3-5-sonnet-20241022'',
      claude_result.usage = \<lparr>input_tokens = 12, output_tokens = 9\<rparr>,
      stopReason = Str ''end_turn''\<rparr>"

section \<open>Properties\<close>

subsection \<open>Auxiliary facts\<close>

text \<open>
  A backend call never rejects with \<^verbatim>\<open>undefined\<close> or \<^verbatim>\<open>null\<close>: its \<^verbatim>\<open>catch\<close> block
  reads the message of the thrown value before it throws it again. Its outcome does not
  depend on the calls issued before it, and it issues exactly one request.
\<close>

lemma catch_log_rethrow_Thrown: "\<exists>m. catch_log_rethrow e = Thrown m"
  by (cases e) (simp_all add: catch_log_rethrow_def TypeError_reading_def)

lemma getOpenAIResponse_trace:
  "snd (getOpenAIResponse E p s opts tr) = tr @ [OpenAI_call (openai_params E p s opts)]"
  by (simp add: getOpenAIResponse_def Let_def split: sum.split list.split)

lemma getClaudeResponse_trace:
  "snd (getClaudeResponse E p s opts tr) = tr @ [Anthropic_call (anthropic_params p s opts)]"
  by (simp add: getClaudeResponse_def Let_def split: sum.split list.split)

lemma getOpenAIResponse_fst:
  "fst (getOpenAIResponse E p s opts tr) = fst (getOpenAIResponse E p s opts tr')"
  by (simp add: getOpenAIResponse_def Let_def split: sum.split list.split)

lemma getClaudeResponse_fst:
  "fst (getClaudeResponse E p s opts tr) = fst (getClaudeResponse E p s opts tr')"
  by (simp add: getClaudeResponse_def Let_def split: sum.split list.split)

lemma getOpenAIResponse_rejects_Thrown:
  assumes "fst (getOpenAIResponse E p s opts tr) = Inl e"
  shows "\<exists>m. e = Thrown m"
proof -
  from assms obtain x where "e = catch_log_rethrow x"
    by (auto simp: getOpenAIResponse_def Let_def split: sum.splits list.splits)
  then show ?thesis using catch_log_rethrow_Thrown [of x] by simp
qed

lemma getClaudeResponse_rejects_Thrown:
  assumes "fst (getClaudeResponse E p s opts tr) = Inl e"
  shows "\<exists>m. e = Thrown m"
proof -
  from assms obtain x where "e = catch_log_rethrow x"
    by (auto simp: getClaudeResponse_def Let_def split: sum.splits list.splits)
  then show ?thesis using catch_log_rethrow_Thrown [of x] by simp
qed

lemma parse_evaluation_Thrown:
  assumes "parse_evaluation E a c ev = Inl e"
  shows "\<exists>m. e = Thrown m"
  using assms
  by (cases "JSON_parse E (ToString (openai_result.content ev))")
     (auto simp: parse_evaluation_def SyntaxError_def TypeError_reading_def
        split: sum.splits js_val.splits elim!: get_prop.elims)

text \<open>
  The request of the judge is never the request of the generation call for the same prompt:
  its user message, the evaluation prompt, is longer than the prompt it embeds.
\<close>

lemma judge_request_differs:
  "judge_request E a c p crit \<noteq> openai_params E' p s opts"
proof -
  have "length p < length (selectionPrompt a c p crit)"
    by (simp add: selectionPrompt_def)
  then have "selectionPrompt a c p crit \<noteq> p" by auto
  then have "openai_request.messages (judge_request E a c p crit)
      \<noteq> openai_request.messages (openai_params E' p s opts)"
    by (simp add: judge_request_def openai_params_def)
  then show ?thesis by auto
qed

text \<open>
  \<^verbatim>\<open>selectBestResponse\<close> as a function of its settled judge call: the \<^verbatim>\<open>catch\<close> block
  cannot throw, since no thrown value that reaches it is \<^verbatim>\<open>undefined\<close> or \<^verbatim>\<open>null\<close>.
\<close>

lemma selectBestResponse_cases:
  "fst (selectBestResponse E a c p crit tr) =
     (case fst (getOpenAIResponse E (selectionPrompt a c p crit) evaluator_system judge_options tr) of
        Inl e \<Rightarrow> Inr (default_selection c)
      | Inr ev \<Rightarrow> (case parse_evaluation E a c ev of
                      Inl e \<Rightarrow> Inr (default_selection c)
                    | Inr outcome \<Rightarrow> Inr outcome))"
proof (cases "getOpenAIResponse E (selectionPrompt a c p crit) evaluator_system judge_options tr")
  case (Pair settled tr')
  show ?thesis
  proof (cases settled)
    case (Inl e)
    from Pair Inl
    have "fst (getOpenAIResponse E (selectionPrompt a c p crit) evaluator_system judge_options tr) = Inl e"
      by simp
    then obtain m where "e = Thrown m"
      using getOpenAIResponse_rejects_Thrown by blast
    with Pair Inl show ?thesis by (simp add: selectBestResponse_def)
  next
    case (Inr ev)
    show ?thesis
    proof (cases "parse_evaluation E a c ev")
      case (Inl e)
      with parse_evaluation_Thrown obtain m where "e = Thrown m" by blast
      with Pair Inr Inl show ?thesis by (simp add: selectBestResponse_def)
    next
      case (Inr outcome)
      with Pair \<open>settled = Inr ev\<close> show ?thesis by (simp add: selectBestResponse_def)
    qed
  qed
qed

lemma selectBestResponse_trace:
  "snd (selectBestResponse E a c p crit tr) =
     tr @ [OpenAI_call (judge_request E a c p crit)]"
proof -
  have "snd (selectBestResponse E a c p crit tr) =
      snd (getOpenAIResponse E (selectionPrompt a c p crit) evaluator_system judge_options tr)"
    by (simp add: selectBestResponse_def split: prod.split sum.split)
  then show ?thesis by (simp add: getOpenAIResponse_trace judge_request_def)
qed

lemma selectBestResponse_returns:
  "\<exists>outcome. fst (selectBestResponse E a c p crit tr) = Inr outcome"
  by (simp add: selectBestResponse_cases split: sum.split)

lemma selectBestResponse_winner:
  assumes "fst (selectBestResponse E a c p crit tr) = Inr sel"
  shows "(winner sel = ''openai'' \<and> selection.content sel = openai_result.content a) \<or>
         (winner sel = ''claude'' \<and> selection.content sel = claude_result.content c)"
  using assms
  by (auto simp: selectBestResponse_cases parse_evaluation_def default_selection_def
        split: sum.splits if_splits)

text \<open>
  \<^verbatim>\<open>getDualAnalysis\<close> by the outcomes of its two backend calls.
\<close>

lemma getDualAnalysis_settled:
  assumes o: "fst (getOpenAIResponse E p s opts tr) = ro"
      and c: "fst (getClaudeResponse E p s opts tr') = rc"
  shows "getDualAnalysis E p s opts tr =
     (case record_error ''openai'' ro
             \<lparr>openai = fulfilled_value ro, claude = fulfilled_value rc,
              errors = Map.empty, selected = None\<rparr> of
        Inl e \<Rightarrow> (Inl e, generation_trace E p s opts tr)
      | Inr results1 \<Rightarrow>
          (case record_error ''claude'' rc results1 of
             Inl e \<Rightarrow> (Inl e, generation_trace E p s opts tr)
           | Inr results2 \<Rightarrow> select_if_both E p opts results2 (generation_trace E p s opts tr)))"
proof -
  obtain tr1 where 1: "getOpenAIResponse E p s opts tr = (ro, tr1)"
    using o by (cases "getOpenAIResponse E p s opts tr") simp
  then have tr1: "tr1 = tr @ [OpenAI_call (openai_params E p s opts)]"
    using getOpenAIResponse_trace [of E p s opts tr] by simp
  have "fst (getClaudeResponse E p s opts tr1) = rc"
    using c getClaudeResponse_fst [of E p s opts tr1 tr'] by simp
  then obtain tr2 where 2: "getClaudeResponse E p s opts tr1 = (rc, tr2)"
    by (cases "getClaudeResponse E p s opts tr1") simp
  then have tr2: "tr2 = generation_trace E p s opts tr"
    using getClaudeResponse_trace [of E p s opts tr1] tr1 by (simp add: generation_trace_def)
  show ?thesis
    by (simp add: getDualAnalysis_def 1 2 tr2)
qed

lemma dual_openai_fails:
  assumes "fst (getOpenAIResponse E p s opts tr) = Inl e"
      and "fst (getClaudeResponse E p s opts tr') = Inr c"
  shows "\<exists>m. e = Thrown m \<and> getDualAnalysis E p s opts tr =
           (Inr \<lparr>openai = None, claude = Some c, errors = [''openai'' \<mapsto> m], selected = None\<rparr>,
            generation_trace E p s opts tr)"
proof -
  from assms(1) obtain m where m: "e = Thrown m"
    using getOpenAIResponse_rejects_Thrown by blast
  show ?thesis
    using m by (simp add: getDualAnalysis_settled [OF assms] select_if_both_def)
qed

lemma dual_claude_fails:
  assumes "fst (getOpenAIResponse E p s opts tr) = Inr a"
      and "fst (getClaudeResponse E p s opts tr') = Inl e"
  shows "\<exists>m. e = Thrown m \<and> getDualAnalysis E p s opts tr =
           (Inr \<lparr>openai = Some a, claude = None, errors = [''claude'' \<mapsto> m], selected = None\<rparr>,
            generation_trace E p s opts tr)"
proof -
  from assms(2) obtain m where m: "e = Thrown m"
    using getClaudeResponse_rejects_Thrown by blast
  show ?thesis
    using m by (simp add: getDualAnalysis_settled [OF assms] select_if_both_def)
qed

lemma dual_both_fail:
  assumes "fst (getOpenAIResponse E p s opts tr) = Inl e1"
      and "fst (getClaudeResponse E p s opts tr') = Inl e2"
  shows "\<exists>m1 m2. e1 = Thrown m1 \<and> e2 = Thrown m2 \<and> getDualAnalysis E p s opts tr =
           (Inr \<lparr>openai = None, claude = None,
                 errors = [''openai'' \<mapsto> m1, ''claude'' \<mapsto> m2], selected = None\<rparr>,
            generation_trace E p s opts tr)"
proof -
  from assms(1) obtain m1 where m1: "e1 = Thrown m1"
    using getOpenAIResponse_rejects_Thrown by blast
  from assms(2) obtain m2 where m2: "e2 = Thrown m2"
    using getClaudeResponse_rejects_Thrown by blast
  show ?thesis
    using m1 m2 by (simp add: getDualAnalysis_settled [OF assms] select_if_both_def)
qed

lemma dual_both_succeed:
  assumes "fst (getOpenAIResponse E p s opts tr) = Inr a"
      and "fst (getClaudeResponse E p s opts tr') = Inr c"
  shows "getDualAnalysis E p s opts tr =
           (if truthy (selectBest opts) then
              (case selectBestResponse E a c p (selectionCriteria opts) (generation_trace E p s opts tr) of
                 (Inl e, tr3) \<Rightarrow> (Inl e, tr3)
               | (Inr outcome, tr3) \<Rightarrow>
                   (Inr \<lparr>openai = Some a, claude = Some c, errors = Map.empty,
                         selected = Some outcome\<rparr>, tr3))
            else (Inr \<lparr>openai = Some a, claude = Some c, errors = Map.empty, selected = None\<rparr>,
                  generation_trace E p s opts tr))"
  by (simp add: getDualAnalysis_settled [OF assms] select_if_both_def split: prod.split sum.split)

lemma dual_both_succeed_select:
  assumes "fst (getOpenAIResponse E p s opts tr) = Inr a"
      and "fst (getClaudeResponse E p s opts tr') = Inr c"
      and "truthy (selectBest opts)"
  shows "\<exists>outcome. fst (selectBestResponse E a c p (selectionCriteria opts) (generation_trace E p s opts tr)) = Inr outcome \<and>
          getDualAnalysis E p s opts tr =
           (Inr \<lparr>openai = Some a, claude = Some c, errors = Map.empty, selected = Some outcome\<rparr>,
            generation_trace E p s opts tr @
              [OpenAI_call (judge_request E a c p (selectionCriteria opts))])"
proof -
  let ?tr = "generation_trace E p s opts tr"
  obtain outcome where out: "fst (selectBestResponse E a c p (selectionCriteria opts) ?tr) = Inr outcome"
    using selectBestResponse_returns by blast
  then have "selectBestResponse E a c p (selectionCriteria opts) ?tr =
      (Inr outcome, ?tr @ [OpenAI_call (judge_request E a c p (selectionCriteria opts))])"
    using selectBestResponse_trace [of E a c p "selectionCriteria opts" ?tr]
    by (cases "selectBestResponse E a c p (selectionCriteria opts) ?tr") simp
  with out show ?thesis
    using assms(3) by (simp add: dual_both_succeed [OF assms(1,2)])
qed

text \<open>
  Unfolding sets for the sample runs.
\<close>

lemmas sample_defs =
  sample_env_def is_judge_request_def evaluator_system_def judge_options_def no_options_def
  select_options_def sample_openai_response_def sample_anthropic_response_def
  sample_openai_result_def sample_claude_result_def timeout_error_def quota_error_def
  JSON_parse_sample_def verdict_A_text_def verdict_B_text_def verdict_A_def verdict_B_def

lemmas call_defs =
  getOpenAIResponse_def getClaudeResponse_def openai_params_def anthropic_params_def
  openai_model_def catch_log_rethrow_def TypeError_reading_def Let_def

lemmas judge_defs =
  getDualAnalysis_def select_if_both_def selectBestResponse_def parse_evaluation_def
  default_selection_def SyntaxError_def own_prop_def generation_trace_def judge_request_def

subsection \<open>The judge falls back on Claude\<close>

text \<open>
  C1. When the judge call errors, or its reply is not parsed (\<^verbatim>\<open>JSON.parse\<close> throws, or the
  reply is the text \<^verbatim>\<open>null\<close>, which has no property to read), \<^verbatim>\<open>selectBestResponse\<close>
  returns normally: the winner is \<^verbatim>\<open>claude\<close>, the content is Claude's, the reasoning is the
  fixed text and the object has no key \<^verbatim>\<open>scores\<close>. The outcome depends on Claude's result
  only, not on the error or on the reply.
\<close>

theorem C1_judge_fallback:
  assumes "(\<exists>e. judge_call E a c p crit tr = Inl e) \<or>
           (\<exists>evaluation. judge_call E a c p crit tr = Inr evaluation \<and>
              ((\<exists>t. JSON_parse E (ToString (openai_result.content evaluation)) = Inl t) \<or>
               JSON_parse E (ToString (openai_result.content evaluation)) = Inr JNull))"
  shows "fst (selectBestResponse E a c p crit tr) =
           Inr \<lparr>winner = ''claude'',
                selection.content = claude_result.content c,
                reasoning = JStr ''Default selection due to evaluation error'',
                scores = None\<rparr>"
  using assms
  by (auto simp: selectBestResponse_cases parse_evaluation_def default_selection_def SyntaxError_def)

text \<open>
  The judge call times out; the judge answers in prose.
\<close>

theorem C1_judge_fallback_witness:
  "judge_call (sample_env (Inr ''answer A'') (Inr ''answer B'') (Inl timeout_error))
       (sample_openai_result ''answer A'') (sample_claude_result ''answer B'') ''q'' None []
     = Inl timeout_error \<and>
   fst (selectBestResponse (sample_env (Inr ''answer A'') (Inr ''answer B'') (Inl timeout_error))
       (sample_openai_result ''answer A'') (sample_claude_result ''answer B'') ''q'' None [])
     = Inr \<lparr>winner = ''claude'', selection.content = Str ''answer B'',
            reasoning = JStr ''Default selection due to evaluation error'', scores = None\<rparr> \<and>
   judge_call (sample_env (Inr ''answer A'') (Inr ''answer B'') (Inr ''I prefer A''))
       (sample_openai_result ''answer A'') (sample_claude_result ''answer B'') ''q'' None []
     = Inr (sample_openai_result ''I prefer A'') \<and>
   JSON_parse (sample_env (Inr ''answer A'') (Inr ''answer B'') (Inr ''I prefer A''))
       (ToString (openai_result.content (sample_openai_result ''I prefer A'')))
     = Inl ''Unexpected token'' \<and>
   fst (selectBestResponse (sample_env (Inr ''answer A'') (Inr ''answer B'') (Inr ''I prefer A''))
       (sample_openai_result ''answer A'') (sample_claude_result ''answer B'') ''q'' None [])
     = Inr \<lparr>winner = ''claude'', selection.content = Str ''answer B'',
            reasoning = JStr ''Default selection due to evaluation error'', scores = None\<rparr>"
proof -
  let ?a = "sample_openai_result ''answer A''" and ?c = "sample_claude_result ''answer B''"
  let ?E1 = "sample_env (Inr ''answer A'') (Inr ''answer B'') (Inl timeout_error)"
  let ?E2 = "sample_env (Inr ''answer A'') (Inr ''answer B'') (Inr ''I prefer A'')"
  have j1: "judge_call ?E1 ?a ?c ''q'' None [] = Inl timeout_error"
    by (simp add: call_defs sample_defs)
  have j2: "judge_call ?E2 ?a ?c ''q'' None [] = Inr (sample_openai_result ''I prefer A'')"
    by (simp add: call_defs sample_defs)
  have p2: "JSON_parse ?E2 (ToString (openai_result.content (sample_openai_result ''I prefer A'')))
              = Inl ''Unexpected token''"
    by (simp add: sample_defs)
  have c: "claude_result.content ?c = Str ''answer B''"
    by (simp add: sample_defs)
  from j1 have "fst (selectBestResponse ?E1 ?a ?c ''q'' None []) =
      Inr \<lparr>winner = ''claude'', selection.content = claude_result.content ?c,
           reasoning = JStr ''Default selection due to evaluation error'', scores = None\<rparr>"
    by (intro C1_judge_fallback) simp
  moreover from j2 p2 have "fst (selectBestResponse ?E2 ?a ?c ''q'' None []) =
      Inr \<lparr>winner = ''claude'', selection.content = claude_result.content ?c,
           reasoning = JStr ''Default selection due to evaluation error'', scores = None\<rparr>"
    by (intro C1_judge_fallback) simp
  ultimately show ?thesis using j1 j2 p2 c by simp
qed

subsection \<open>One backend fails, the other succeeds\<close>

text \<open>
  C2. When the OpenAI call rejects and the Claude call fulfils, \<^verbatim>\<open>getDualAnalysis\<close> returns
  normally with Claude's result in the slot \<^verbatim>\<open>claude\<close>, \<^verbatim>\<open>null\<close> in the slot \<^verbatim>\<open>openai\<close>,
  the message of the rejection under the key \<^verbatim>\<open>openai\<close> of \<^verbatim>\<open>errors\<close> and no key \<^verbatim>\<open>claude\<close>
  there; both requests have been issued, and no other. The same holds with the two backends
  exchanged. (The outcome of a backend call does not depend on the trace it starts from,
  so the hypotheses leave the trace of Claude's call free.)
\<close>

theorem C2_independence:
  "(fst (getOpenAIResponse E p s opts tr) = Inl e \<and>
    fst (getClaudeResponse E p s opts tr') = Inr c \<longrightarrow>
      (\<exists>m r. message e = Inr m \<and>
         fst (getDualAnalysis E p s opts tr) = Inr r \<and>
         claude r = Some c \<and> openai r = None \<and>
         errors r ''openai'' = Some m \<and> errors r ''claude'' = None \<and>
         snd (getDualAnalysis E p s opts tr) = generation_trace E p s opts tr)) \<and>
   (fst (getClaudeResponse E p s opts tr') = Inl e \<and>
    fst (getOpenAIResponse E p s opts tr) = Inr a \<longrightarrow>
      (\<exists>m r. message e = Inr m \<and>
         fst (getDualAnalysis E p s opts tr) = Inr r \<and>
         openai r = Some a \<and> claude r = None \<and>
         errors r ''claude'' = Some m \<and> errors r ''openai'' = None \<and>
         snd (getDualAnalysis E p s opts tr) = generation_trace E p s opts tr))"
proof (intro conjI impI)
  assume "fst (getOpenAIResponse E p s opts tr) = Inl e \<and>
    fst (getClaudeResponse E p s opts tr') = Inr c"
  then show "\<exists>m r. message e = Inr m \<and>
         fst (getDualAnalysis E p s opts tr) = Inr r \<and>
         claude r = Some c \<and> openai r = None \<and>
         errors r ''openai'' = Some m \<and> errors r ''claude'' = None \<and>
         snd (getDualAnalysis E p s opts tr) = generation_trace E p s opts tr"
    using dual_openai_fails [of E p s opts tr e tr' c] by auto
next
  assume "fst (getClaudeResponse E p s opts tr') = Inl e \<and>
    fst (getOpenAIResponse E p s opts tr) = Inr a"
  then show "\<exists>m r. message e = Inr m \<and>
         fst (getDualAnalysis E p s opts tr) = Inr r \<and>
         openai r = Some a \<and> claude r = None \<and>
         errors r ''claude'' = Some m \<and> errors r ''openai'' = None \<and>
         snd (getDualAnalysis E p s opts tr) = generation_trace E p s opts tr"
    using dual_claude_fails [of E p s opts tr a tr' e] by auto
qed

text \<open>
  OpenAI is over quota while Claude answers; Claude times out while OpenAI answers.
\<close>

theorem C2_independence_witness:
  "fst (getOpenAIResponse (sample_env (Inl quota_error) (Inr ''answer B'') (Inr verdict_A_text))
          ''q'' ''sys'' select_options []) = Inl quota_error \<and>
   fst (getClaudeResponse (sample_env (Inl quota_error) (Inr ''answer B'') (Inr verdict_A_text))
          ''q'' ''sys'' select_options []) = Inr (sample_claude_result ''answer B'') \<and>
   (\<exists>r. fst (getDualAnalysis (sample_env (Inl quota_error) (Inr ''answer B'') (Inr verdict_A_text))
               ''q'' ''sys'' select_options []) = Inr r \<and>
        claude r = Some (sample_claude_result ''answer B'') \<and> openai r = None \<and>
        errors r ''openai'' = Some (Str ''429 You exceeded your current quota'') \<and>
        errors r ''claude'' = None) \<and>
   fst (getClaudeResponse (sample_env (Inr ''answer A'') (Inl timeout_error) (Inr verdict_A_text))
          ''q'' ''sys'' select_options []) = Inl timeout_error \<and>
   fst (getOpenAIResponse (sample_env (Inr ''answer A'') (Inl timeout_error) (Inr verdict_A_text))
          ''q'' ''sys'' select_options []) = Inr (sample_openai_result ''answer A'') \<and>
   (\<exists>r. fst (getDualAnalysis (sample_env (Inr ''answer A'') (Inl timeout_error) (Inr verdict_A_text))
               ''q'' ''sys'' select_options []) = Inr r \<and>
        openai r = Some (sample_openai_result ''answer A'') \<and> claude r = None \<and>
        errors r ''claude'' = Some (Str ''Request timed out.'') \<and>
        errors r ''openai'' = None)"
proof -
  let ?E1 = "sample_env (Inl quota_error) (Inr ''answer B'') (Inr verdict_A_text)"
  let ?E2 = "sample_env (Inr ''answer A'') (Inl timeout_error) (Inr verdict_A_text)"
  have o1: "fst (getOpenAIResponse ?E1 ''q'' ''sys'' select_options []) = Inl quota_error"
    by (simp add: call_defs sample_defs)
  have c1: "fst (getClaudeResponse ?E1 ''q'' ''sys'' select_options [])
              = Inr (sample_claude_result ''answer B'')"
    by (simp add: call_defs sample_defs)
  have c2: "fst (getClaudeResponse ?E2 ''q'' ''sys'' select_options []) = Inl timeout_error"
    by (simp add: call_defs sample_defs)
  have o2: "fst (getOpenAIResponse ?E2 ''q'' ''sys'' select_options [])
              = Inr (sample_openai_result ''answer A'')"
    by (simp add: call_defs sample_defs)
  have m: "message quota_error = Inr (Str ''429 You exceeded your current quota'')"
      "message timeout_error = Inr (Str ''Request timed out.'')"
    by (simp_all add: quota_error_def timeout_error_def)
  from C2_independence [of ?E1 "''q''" "''sys''" select_options "[]" quota_error "[]"
      "sample_claude_result ''answer B''"] o1 c1 m
  have r1: "\<exists>r. fst (getDualAnalysis ?E1 ''q'' ''sys'' select_options []) = Inr r \<and>
        claude r = Some (sample_claude_result ''answer B'') \<and> openai r = None \<and>
        errors r ''openai'' = Some (Str ''429 You exceeded your current quota'') \<and>
        errors r ''claude'' = None"
    by auto
  from C2_independence [of ?E2 "''q''" "''sys''" select_options "[]" timeout_error "[]" _
      "sample_openai_result ''answer A''"] o2 c2 m
  have r2: "\<exists>r. fst (getDualAnalysis ?E2 ''q'' ''sys'' select_options []) = Inr r \<and>
        openai r = Some (sample_openai_result ''answer A'') \<and> claude r = None \<and>
        errors r ''claude'' = Some (Str ''Request timed out.'') \<and>
        errors r ''openai'' = None"
    by auto
  from o1 c1 r1 c2 o2 r2 show ?thesis by blast
qed

subsection \<open>Selection needs both results\<close>

text \<open>
  C3. With \<^verbatim>\<open>selectBest\<close> set, \<^verbatim>\<open>getDualAnalysis\<close> returns normally, and its result has the
  key \<^verbatim>\<open>selected\<close> exactly when both backend calls fulfilled. Without the key, the only
  requests issued are the two generation requests: the judge was not called. With the key,
  its value is what \<^verbatim>\<open>selectBestResponse\<close> returned on the two results.
\<close>

theorem C3_selection_iff_both:
  assumes "truthy (selectBest opts)"
  shows "\<exists>r. fst (getDualAnalysis E p s opts tr) = Inr r \<and>
           ((\<exists>sel. selected r = Some sel) =
              ((\<exists>a. fst (getOpenAIResponse E p s opts tr) = Inr a) \<and>
               (\<exists>c. fst (getClaudeResponse E p s opts tr) = Inr c))) \<and>
           (selected r = None \<longrightarrow>
              snd (getDualAnalysis E p s opts tr) = generation_trace E p s opts tr) \<and>
           (\<forall>sel. selected r = Some sel \<longrightarrow>
              (\<exists>a c. openai r = Some a \<and> claude r = Some c \<and>
                 selectBestResponse E a c p (selectionCriteria opts)
                     (generation_trace E p s opts tr)
                   = (Inr sel, snd (getDualAnalysis E p s opts tr))))"
proof (cases "fst (getOpenAIResponse E p s opts tr)")
  case o: (Inl e1)
  show ?thesis
  proof (cases "fst (getClaudeResponse E p s opts tr)")
    case (Inl e2)
    from dual_both_fail [OF o Inl] show ?thesis using o by auto
  next
    case (Inr c)
    from dual_openai_fails [OF o Inr] show ?thesis using o by auto
  qed
next
  case o: (Inr a)
  show ?thesis
  proof (cases "fst (getClaudeResponse E p s opts tr)")
    case (Inl e2)
    from dual_claude_fails [OF o Inl] show ?thesis using Inl by auto
  next
    case (Inr c)
    from dual_both_succeed_select [OF o Inr assms] obtain outcome where
      out: "fst (selectBestResponse E a c p (selectionCriteria opts) (generation_trace E p s opts tr)) = Inr outcome"
      and d: "getDualAnalysis E p s opts tr =
           (Inr \<lparr>openai = Some a, claude = Some c, errors = Map.empty, selected = Some outcome\<rparr>,
            generation_trace E p s opts tr @
              [OpenAI_call (judge_request E a c p (selectionCriteria opts))])"
      by blast
    have "selectBestResponse E a c p (selectionCriteria opts) (generation_trace E p s opts tr)
        = (Inr outcome, generation_trace E p s opts tr @
              [OpenAI_call (judge_request E a c p (selectionCriteria opts))])"
      using out selectBestResponse_trace [of E a c p "selectionCriteria opts" "generation_trace E p s opts tr"]
      by (cases "selectBestResponse E a c p (selectionCriteria opts) (generation_trace E p s opts tr)") simp
    with d o Inr show ?thesis by simp
  qed
qed

text \<open>
  OpenAI is over quota: no selection, two requests. Both answer: a selection.
\<close>

theorem C3_selection_iff_both_witness:
  "truthy (selectBest select_options) \<and>
   fst (getOpenAIResponse (sample_env (Inl quota_error) (Inr ''answer B'') (Inr verdict_A_text))
          ''q'' ''sys'' select_options []) = Inl quota_error \<and>
   (\<exists>r. fst (getDualAnalysis (sample_env (Inl quota_error) (Inr ''answer B'') (Inr verdict_A_text))
               ''q'' ''sys'' select_options []) = Inr r \<and>
        selected r = None \<and>
        snd (getDualAnalysis (sample_env (Inl quota_error) (Inr ''answer B'') (Inr verdict_A_text))
               ''q'' ''sys'' select_options []) =
          [OpenAI_call (openai_params
               (sample_env (Inl quota_error) (Inr ''answer B'') (Inr verdict_A_text))
               ''q'' ''sys'' select_options),
           Anthropic_call (anthropic_params ''q'' ''sys'' select_options)]) \<and>
   fst (getOpenAIResponse (sample_env (Inr ''answer A'') (Inr ''answer B'') (Inr verdict_B_text))
          ''q'' ''sys'' select_options []) = Inr (sample_openai_result ''answer A'') \<and>
   fst (getClaudeResponse (sample_env (Inr ''answer A'') (Inr ''answer B'') (Inr verdict_B_text))
          ''q'' ''sys'' select_options []) = Inr (sample_claude_result ''answer B'') \<and>
   (\<exists>r sel. fst (getDualAnalysis (sample_env (Inr ''answer A'') (Inr ''answer B'') (Inr verdict_B_text))
               ''q'' ''sys'' select_options []) = Inr r \<and>
        selected r = Some sel)"
proof -
  let ?E = "sample_env (Inl quota_error) (Inr ''answer B'') (Inr verdict_A_text)"
  let ?E2 = "sample_env (Inr ''answer A'') (Inr ''answer B'') (Inr verdict_B_text)"
  have t: "truthy (selectBest select_options)"
    by (simp add: select_options_def no_options_def)
  have o: "fst (getOpenAIResponse ?E ''q'' ''sys'' select_options []) = Inl quota_error"
    by (simp add: call_defs sample_defs)
  from C3_selection_iff_both [OF t, of ?E "''q''" "''sys''" "[]"] obtain r where
    r: "fst (getDualAnalysis ?E ''q'' ''sys'' select_options []) = Inr r"
    and iff: "(\<exists>sel. selected r = Some sel) =
              ((\<exists>a. fst (getOpenAIResponse ?E ''q'' ''sys'' select_options []) = Inr a) \<and>
               (\<exists>c. fst (getClaudeResponse ?E ''q'' ''sys'' select_options []) = Inr c))"
    and tr: "selected r = None \<longrightarrow>
              snd (getDualAnalysis ?E ''q'' ''sys'' select_options [])
                = generation_trace ?E ''q'' ''sys'' select_options []"
    by (elim exE conjE) (rule that)
  from iff o have sel: "selected r = None" by simp
  with tr have "snd (getDualAnalysis ?E ''q'' ''sys'' select_options []) =
          [OpenAI_call (openai_params ?E ''q'' ''sys'' select_options),
           Anthropic_call (anthropic_params ''q'' ''sys'' select_options)]"
    by (simp add: generation_trace_def)
  with r sel have neg: "\<exists>r. fst (getDualAnalysis ?E ''q'' ''sys'' select_options []) = Inr r \<and>
        selected r = None \<and>
        snd (getDualAnalysis ?E ''q'' ''sys'' select_options []) =
          [OpenAI_call (openai_params ?E ''q'' ''sys'' select_options),
           Anthropic_call (anthropic_params ''q'' ''sys'' select_options)]"
    by blast
  have o2: "fst (getOpenAIResponse ?E2 ''q'' ''sys'' select_options [])
              = Inr (sample_openai_result ''answer A'')"
    by (simp add: call_defs sample_defs)
  have c2: "fst (getClaudeResponse ?E2 ''q'' ''sys'' select_options [])
              = Inr (sample_claude_result ''answer B'')"
    by (simp add: call_defs sample_defs)
  from C3_selection_iff_both [OF t, of ?E2 "''q''" "''sys''" "[]"] obtain r2 where
    r2: "fst (getDualAnalysis ?E2 ''q'' ''sys'' select_options []) = Inr r2"
    and iff2: "(\<exists>sel. selected r2 = Some sel) =
              ((\<exists>a. fst (getOpenAIResponse ?E2 ''q'' ''sys'' select_options []) = Inr a) \<and>
               (\<exists>c. fst (getClaudeResponse ?E2 ''q'' ''sys'' select_options []) = Inr c))"
    by (elim exE conjE) (rule that)
  from iff2 o2 c2 have "\<exists>sel. selected r2 = Some sel" by simp
  with r2 have pos: "\<exists>r sel. fst (getDualAnalysis ?E2 ''q'' ''sys'' select_options []) = Inr r \<and>
        selected r = Some sel"
    by blast
  from t o neg o2 c2 pos show ?thesis by (intro conjI)
qed

subsection \<open>Both backends fail\<close>

text \<open>
  C4. When both backend calls reject, \<^verbatim>\<open>getDualAnalysis\<close> returns normally: both result
  slots are \<^verbatim>\<open>null\<close>, \<^verbatim>\<open>errors\<close> has exactly the keys \<^verbatim>\<open>openai\<close> and \<^verbatim>\<open>claude\<close>, each with
  the message of its rejection, and there is no key \<^verbatim>\<open>selected\<close>.
\<close>

theorem C4_both_fail:
  assumes "fst (getOpenAIResponse E p s opts tr) = Inl e1"
      and "fst (getClaudeResponse E p s opts tr') = Inl e2"
  shows "\<exists>m1 m2 r. message e1 = Inr m1 \<and> message e2 = Inr m2 \<and>
           fst (getDualAnalysis E p s opts tr) = Inr r \<and>
           openai r = None \<and> claude r = None \<and>
           errors r ''openai'' = Some m1 \<and> errors r ''claude'' = Some m2 \<and>
           dom (errors r) = {''openai'', ''claude''} \<and>
           selected r = None"
  using dual_both_fail [OF assms] by auto

text \<open>
  OpenAI times out and Claude is over quota.
\<close>

theorem C4_both_fail_witness:
  "fst (getOpenAIResponse (sample_env (Inl timeout_error) (Inl quota_error) (Inr verdict_A_text))
          ''q'' ''sys'' select_options []) = Inl timeout_error \<and>
   fst (getClaudeResponse (sample_env (Inl timeout_error) (Inl quota_error) (Inr verdict_A_text))
          ''q'' ''sys'' select_options []) = Inl quota_error \<and>
   (\<exists>r. fst (getDualAnalysis (sample_env (Inl timeout_error) (Inl quota_error) (Inr verdict_A_text))
               ''q'' ''sys'' select_options []) = Inr r \<and>
        openai r = None \<and> claude r = None \<and>
        errors r ''openai'' = Some (Str ''Request timed out.'') \<and>
        errors r ''claude'' = Some (Str ''429 You exceeded your current quota'') \<and>
        dom (errors r) = {''openai'', ''claude''} \<and>
        selected r = None)"
proof -
  let ?E = "sample_env (Inl timeout_error) (Inl quota_error) (Inr verdict_A_text)"
  have o: "fst (getOpenAIResponse ?E ''q'' ''sys'' select_options []) = Inl timeout_error"
    by (simp add: call_defs sample_defs)
  have c: "fst (getClaudeResponse ?E ''q'' ''sys'' select_options []) = Inl quota_error"
    by (simp add: call_defs sample_defs)
  have m: "message quota_error = Inr (Str ''429 You exceeded your current quota'')"
      "message timeout_error = Inr (Str ''Request timed out.'')"
    by (simp_all add: quota_error_def timeout_error_def)
  from C4_both_fail [OF o c] m
  have "\<exists>r. fst (getDualAnalysis ?E ''q'' ''sys'' select_options []) = Inr r \<and>
        openai r = None \<and> claude r = None \<and>
        errors r ''openai'' = Some (Str ''Request timed out.'') \<and>
        errors r ''claude'' = Some (Str ''429 You exceeded your current quota'') \<and>
        dom (errors r) = {''openai'', ''claude''} \<and>
        selected r = None"
    by auto
  with o c show ?thesis by blast
qed

subsection \<open>The judge picks a label\<close>

text \<open>
  C5. When the judge reply parses to an object whose \<^verbatim>\<open>selected\<close> is the string \<^verbatim>\<open>A\<close>,
  the winner is \<^verbatim>\<open>openai\<close> and the content is the OpenAI result's content; when it is \<^verbatim>\<open>B\<close>,
  the winner is \<^verbatim>\<open>claude\<close> with Claude's content. In both cases \<^verbatim>\<open>reasoning\<close> and \<^verbatim>\<open>scores\<close>
  are the properties of the parsed object, as they are.
\<close>

theorem C5_judge_success:
  assumes "judge_call E a c p crit tr = Inr evaluation"
      and "JSON_parse E (ToString (openai_result.content evaluation)) = Inr (JObj kvs)"
  shows "(map_of kvs ''selected'' = Some (JStr ''A'') \<longrightarrow>
            fst (selectBestResponse E a c p crit tr) =
              Inr \<lparr>winner = ''openai'',
                   selection.content = openai_result.content a,
                   reasoning = own_prop kvs ''reasoning'',
                   scores = Some (own_prop kvs ''scores'')\<rparr>) \<and>
         (map_of kvs ''selected'' = Some (JStr ''B'') \<longrightarrow>
            fst (selectBestResponse E a c p crit tr) =
              Inr \<lparr>winner = ''claude'',
                   selection.content = claude_result.content c,
                   reasoning = own_prop kvs ''reasoning'',
                   scores = Some (own_prop kvs ''scores'')\<rparr>)"
  using assms
  by (simp add: selectBestResponse_cases parse_evaluation_def own_prop_def)

text \<open>
  The judge answers with a verdict for A (with scores), and with one for B (without).
\<close>

theorem C5_judge_success_witness:
  "judge_call (sample_env (Inr ''answer A'') (Inr ''answer B'') (Inr verdict_A_text))
       (sample_openai_result ''answer A'') (sample_claude_result ''answer B'') ''q'' None []
     = Inr (sample_openai_result verdict_A_text) \<and>
   JSON_parse (sample_env (Inr ''answer A'') (Inr ''answer B'') (Inr verdict_A_text))
       (ToString (openai_result.content (sample_openai_result verdict_A_text)))
     = Inr verdict_A \<and>
   fst (selectBestResponse (sample_env (Inr ''answer A'') (Inr ''answer B'') (Inr verdict_A_text))
       (sample_openai_result ''answer A'') (sample_claude_result ''answer B'') ''q'' None [])
     = Inr \<lparr>winner = ''openai'', selection.content = Str ''answer A'',
            reasoning = JStr ''clearer'',
            scores = Some (JObj
              [(''A'', JObj [(''accuracy'', JNum 9), (''helpfulness'', JNum 8), (''clarity'', JNum 9)]),
               (''B'', JObj [(''accuracy'', JNum 7), (''helpfulness'', JNum 8), (''clarity'', JNum 6)])])\<rparr> \<and>
   judge_call (sample_env (Inr ''answer A'') (Inr ''answer B'') (Inr verdict_B_text))
       (sample_openai_result ''answer A'') (sample_claude_result ''answer B'') ''q'' None []
     = Inr (sample_openai_result verdict_B_text) \<and>
   JSON_parse (sample_env (Inr ''answer A'') (Inr ''answer B'') (Inr verdict_B_text))
       (ToString (openai_result.content (sample_openai_result verdict_B_text)))
     = Inr verdict_B \<and>
   fst (selectBestResponse (sample_env (Inr ''answer A'') (Inr ''answer B'') (Inr verdict_B_text))
       (sample_openai_result ''answer A'') (sample_claude_result ''answer B'') ''q'' None [])
     = Inr \<lparr>winner = ''claude'', selection.content = Str ''answer B'',
            reasoning = JStr ''more complete'', scores = Some JUndefined\<rparr>"
proof -
  let ?a = "sample_openai_result ''answer A''" and ?c = "sample_claude_result ''answer B''"
  let ?EA = "sample_env (Inr ''answer A'') (Inr ''answer B'') (Inr verdict_A_text)"
  let ?EB = "sample_env (Inr ''answer A'') (Inr ''answer B'') (Inr verdict_B_text)"
  let ?kA = "[(''selected'', JStr ''A''), (''reasoning'', JStr ''clearer''),
           (''scores'', JObj
              [(''A'', JObj [(''accuracy'', JNum 9), (''helpfulness'', JNum 8), (''clarity'', JNum 9)]),
               (''B'', JObj [(''accuracy'', JNum 7), (''helpfulness'', JNum 8), (''clarity'', JNum 6)])])]"
  let ?kB = "[(''selected'', JStr ''B''), (''reasoning'', JStr ''more complete'')]"
  have jA: "judge_call ?EA ?a ?c ''q'' None [] = Inr (sample_openai_result verdict_A_text)"
    by (simp add: call_defs sample_env_def is_judge_request_def sample_openai_response_def
          sample_openai_result_def judge_options_def no_options_def)
  have pA: "JSON_parse ?EA (ToString (openai_result.content (sample_openai_result verdict_A_text)))
              = Inr (JObj ?kA)"
    by (simp add: sample_env_def sample_openai_result_def JSON_parse_sample_def verdict_A_def)
  have jB: "judge_call ?EB ?a ?c ''q'' None [] = Inr (sample_openai_result verdict_B_text)"
    by (simp add: call_defs sample_env_def is_judge_request_def sample_openai_response_def
          sample_openai_result_def judge_options_def no_options_def)
  have pB: "JSON_parse ?EB (ToString (openai_result.content (sample_openai_result verdict_B_text)))
              = Inr (JObj ?kB)"
    by (simp add: sample_defs)
  have sA: "map_of ?kA ''selected'' = Some (JStr ''A'')" by simp
  have sB: "map_of ?kB ''selected'' = Some (JStr ''B'')" by simp
  have rA: "fst (selectBestResponse ?EA ?a ?c ''q'' None []) =
              Inr \<lparr>winner = ''openai'', selection.content = openai_result.content ?a,
                   reasoning = own_prop ?kA ''reasoning'',
                   scores = Some (own_prop ?kA ''scores'')\<rparr>"
    using C5_judge_success [OF jA pA] sA by blast
  have rB: "fst (selectBestResponse ?EB ?a ?c ''q'' None []) =
              Inr \<lparr>winner = ''claude'', selection.content = claude_result.content ?c,
                   reasoning = own_prop ?kB ''reasoning'',
                   scores = Some (own_prop ?kB ''scores'')\<rparr>"
    using C5_judge_success [OF jB pB] sB by blast
  have vals: "openai_result.content ?a = Str ''answer A''"
      "claude_result.content ?c = Str ''answer B''"
      "own_prop ?kA ''reasoning'' = JStr ''clearer''"
      "own_prop ?kA ''scores'' = JObj
              [(''A'', JObj [(''accuracy'', JNum 9), (''helpfulness'', JNum 8), (''clarity'', JNum 9)]),
               (''B'', JObj [(''accuracy'', JNum 7), (''helpfulness'', JNum 8), (''clarity'', JNum 6)])]"
      "own_prop ?kB ''reasoning'' = JStr ''more complete''"
      "own_prop ?kB ''scores'' = JUndefined"
    by (simp_all add: own_prop_def sample_openai_result_def sample_claude_result_def)
  show ?thesis
    using jA pA jB pB rA rB unfolding vals verdict_A_def verdict_B_def by simp
qed

subsection \<open>The sampling temperature reaches OpenAI only\<close>

text \<open>
  C6. The claim is that both backend requests carry the sampling temperature and the
  maximal output length of the caller. With temperature 0.2 and \<^verbatim>\<open>maxTokens\<close> 500,
  \<^verbatim>\<open>getDualAnalysis\<close> sends OpenAI both, and sends Claude the length only: Claude's request
  has the four properties \<^verbatim>\<open>model\<close>, \<^verbatim>\<open>max_tokens\<close>, \<^verbatim>\<open>system\<close> and \<^verbatim>\<open>messages\<close>, and is
  the same request whatever the temperature of the options is.
\<close>

theorem C6_claude_request_without_temperature:
  "snd (getDualAnalysis (sample_env (Inr ''answer A'') (Inr ''answer B'') (Inr verdict_A_text))
          ''q'' ''sys'' (no_options\<lparr>options.temperature := Some (1 / 5), maxTokens := Some 500\<rparr>) []) =
     [OpenAI_call \<lparr>openai_request.model = ''gpt-4-turbo-preview'',
                   openai_request.messages = [(''system'', ''sys''), (''user'', ''q'')],
                   openai_request.temperature = 1 / 5,
                   openai_request.max_tokens = 500\<rparr>,
      Anthropic_call \<lparr>anthropic_request.model = ''claude-3-5-sonnet-20241022'',
                      anthropic_request.max_tokens = 500,
                      system = ''sys'',
                      anthropic_request.messages = [(''user'', ''q'')]\<rparr>] \<and>
   (\<forall>p s opts t. anthropic_params p s (opts\<lparr>options.temperature := t\<rparr>) = anthropic_params p s opts)"
proof
  let ?E = "sample_env (Inr ''answer A'') (Inr ''answer B'') (Inr verdict_A_text)"
  let ?o = "no_options\<lparr>options.temperature := Some (1 / 5), maxTokens := Some 500\<rparr>"
  have o: "fst (getOpenAIResponse ?E ''q'' ''sys'' ?o []) = Inr (sample_openai_result ''answer A'')"
    by (simp add: call_defs sample_defs)
  have c: "fst (getClaudeResponse ?E ''q'' ''sys'' ?o []) = Inr (sample_claude_result ''answer B'')"
    by (simp add: call_defs sample_defs)
  have "\<not> truthy (selectBest ?o)" by (simp add: no_options_def)
  then have "snd (getDualAnalysis ?E ''q'' ''sys'' ?o []) = generation_trace ?E ''q'' ''sys'' ?o []"
    by (simp add: dual_both_succeed [OF o c])
  then show "snd (getDualAnalysis ?E ''q'' ''sys'' ?o []) =
     [OpenAI_call \<lparr>openai_request.model = ''gpt-4-turbo-preview'',
                   openai_request.messages = [(''system'', ''sys''), (''user'', ''q'')],
                   openai_request.temperature = 1 / 5,
                   openai_request.max_tokens = 500\<rparr>,
      Anthropic_call \<lparr>anthropic_request.model = ''claude-3-5-sonnet-20241022'',
                      anthropic_request.max_tokens = 500,
                      system = ''sys'',
                      anthropic_request.messages = [(''user'', ''q'')]\<rparr>]"
    by (simp add: generation_trace_def openai_params_def anthropic_params_def openai_model_def
          sample_env_def no_options_def)
  show "\<forall>p s opts t. anthropic_params p s (opts\<lparr>options.temperature := t\<rparr>) = anthropic_params p s opts"
    by (simp add: anthropic_params_def)
qed

subsection \<open>The request of the judge\<close>

text \<open>
  C7. \<^verbatim>\<open>selectBestResponse\<close> issues exactly one request, to OpenAI, with temperature 0.3,
  which is below the 0.7 of a generation request without options; its user message is the
  evaluation prompt. Without criteria, the prompt is the one for the criteria
  \<^verbatim>\<open>accuracy, helpfulness, clarity, completeness\<close>, and contains them.
\<close>

theorem C7_judge_request:
  "snd (selectBestResponse E a c p crit tr) = tr @ [OpenAI_call (judge_request E a c p crit)] \<and>
   openai_request.temperature (judge_request E a c p crit) = 3 / 10 \<and>
   openai_request.temperature (judge_request E a c p crit)
     < openai_request.temperature (openai_params E prompt systemPrompt no_options) \<and>
   openai_request.messages (judge_request E a c p crit) =
     [(''system'', ''You are an impartial AI evaluator. Respond only with valid JSON.''),
      (''user'', selectionPrompt a c p crit)] \<and>
   selectionPrompt a c p None =
     selectionPrompt a c p (Some ''accuracy, helpfulness, clarity, completeness'') \<and>
   (\<exists>before after. selectionPrompt a c p None =
      before @ ''Evaluation Criteria: accuracy, helpfulness, clarity, completeness'' @ after)"
proof (intro conjI)
  show "snd (selectBestResponse E a c p crit tr) = tr @ [OpenAI_call (judge_request E a c p crit)]"
    by (rule selectBestResponse_trace)
  show "openai_request.temperature (judge_request E a c p crit) = 3 / 10"
    by (simp add: judge_request_def openai_params_def judge_options_def no_options_def)
  show "openai_request.temperature (judge_request E a c p crit)
     < openai_request.temperature (openai_params E prompt systemPrompt no_options)"
    by (simp add: judge_request_def openai_params_def judge_options_def no_options_def)
  show "openai_request.messages (judge_request E a c p crit) =
     [(''system'', ''You are an impartial AI evaluator. Respond only with valid JSON.''),
      (''user'', selectionPrompt a c p crit)]"
    by (simp add: judge_request_def openai_params_def evaluator_system_def)
  show "selectionPrompt a c p None =
     selectionPrompt a c p (Some ''accuracy, helpfulness, clarity, completeness'')"
    by (simp add: selectionPrompt_def default_criteria_def)
  show "\<exists>before after. selectionPrompt a c p None =
      before @ ''Evaluation Criteria: accuracy, helpfulness, clarity, completeness'' @ after"
    unfolding selectionPrompt_def default_criteria_def str_or.simps
    by (rule exI [of _ "''\<newline>You are an expert evaluator. Compare these two AI responses and select the better one.\<newline>'' @
     ''\<newline>Original Prompt: '' @ p @ ''\<newline>'' @
     ''\<newline>Response A (OpenAI):\<newline>'' @ ToString (openai_result.content a) @ ''\<newline>'' @
     ''\<newline>Response B (Claude):\<newline>'' @ ToString (claude_result.content c) @ ''\<newline>'' @ ''\<newline>''"],
        rule exI, simp)
qed

subsection \<open>A selection refers to a result of the same call\<close>

text \<open>
  C8. Whenever the result of \<^verbatim>\<open>getDualAnalysis\<close> has a \<^verbatim>\<open>selected\<close> outcome, its winner is
  \<^verbatim>\<open>openai\<close> or \<^verbatim>\<open>claude\<close>, the call of that backend fulfilled in this run, its result is in
  the slot of that backend, and the content of the outcome is the content of that result.
\<close>

theorem C8_selection_references_result:
  assumes "fst (getDualAnalysis E p s opts tr) = Inr r"
      and "selected r = Some sel"
  shows "(\<exists>a. winner sel = ''openai'' \<and>
            fst (getOpenAIResponse E p s opts tr) = Inr a \<and> openai r = Some a \<and>
            selection.content sel = openai_result.content a) \<or>
         (\<exists>c. winner sel = ''claude'' \<and>
            fst (getClaudeResponse E p s opts tr) = Inr c \<and> claude r = Some c \<and>
            selection.content sel = claude_result.content c)"
proof (cases "fst (getOpenAIResponse E p s opts tr)")
  case o: (Inl e1)
  show ?thesis
  proof (cases "fst (getClaudeResponse E p s opts tr)")
    case (Inl e2)
    from dual_both_fail [OF o Inl] assms show ?thesis by auto
  next
    case (Inr c)
    from dual_openai_fails [OF o Inr] assms show ?thesis by auto
  qed
next
  case o: (Inr a)
  show ?thesis
  proof (cases "fst (getClaudeResponse E p s opts tr)")
    case (Inl e2)
    from dual_claude_fails [OF o Inl] assms show ?thesis by auto
  next
    case (Inr c)
    show ?thesis
    proof (cases "truthy (selectBest opts)")
      case False
      with dual_both_succeed [OF o Inr] assms show ?thesis by auto
    next
      case True
      from dual_both_succeed_select [OF o Inr True] assms obtain outcome where
        out: "fst (selectBestResponse E a c p (selectionCriteria opts) (generation_trace E p s opts tr)) = Inr outcome"
        and r: "r = \<lparr>openai = Some a, claude = Some c, errors = Map.empty, selected = Some outcome\<rparr>"
        by auto
      from r assms(2) have "sel = outcome" by simp
      with selectBestResponse_winner [OF out] r o Inr show ?thesis by auto
    qed
  qed
qed

text \<open>
  Both backends answer and the judge picks A.
\<close>

theorem C8_selection_references_result_witness:
  "fst (getDualAnalysis (sample_env (Inr ''answer A'') (Inr ''answer B'') (Inr verdict_A_text))
          ''q'' ''sys'' select_options []) =
     Inr \<lparr>openai = Some (sample_openai_result ''answer A''),
          claude = Some (sample_claude_result ''answer B''),
          errors = Map.empty,
          selected = Some \<lparr>winner = ''openai'', selection.content = Str ''answer A'',
                           reasoning = JStr ''clearer'',
                           scores = Some (JObj
              [(''A'', JObj [(''accuracy'', JNum 9), (''helpfulness'', JNum 8), (''clarity'', JNum 9)]),
               (''B'', JObj [(''accuracy'', JNum 7), (''helpfulness'', JNum 8), (''clarity'', JNum 6)])])\<rparr>\<rparr> \<and>
   (\<exists>a. fst (getOpenAIResponse (sample_env (Inr ''answer A'') (Inr ''answer B'') (Inr verdict_A_text))
               ''q'' ''sys'' select_options []) = Inr a \<and>
        a = sample_openai_result ''answer A'' \<and>
        openai_result.content a = Str ''answer A'')"
proof -
  let ?E = "sample_env (Inr ''answer A'') (Inr ''answer B'') (Inr verdict_A_text)"
  let ?S = "\<lparr>winner = ''openai'', selection.content = Str ''answer A'',
                           reasoning = JStr ''clearer'',
                           scores = Some (JObj
              [(''A'', JObj [(''accuracy'', JNum 9), (''helpfulness'', JNum 8), (''clarity'', JNum 9)]),
               (''B'', JObj [(''accuracy'', JNum 7), (''helpfulness'', JNum 8), (''clarity'', JNum 6)])])\<rparr>"
  let ?R = "\<lparr>openai = Some (sample_openai_result ''answer A''),
          claude = Some (sample_claude_result ''answer B''),
          errors = Map.empty, selected = Some ?S\<rparr>"
  have d: "fst (getDualAnalysis ?E ''q'' ''sys'' select_options []) = Inr ?R"
    by (simp add: judge_defs call_defs sample_env_def is_judge_request_def evaluator_system_def
          judge_options_def no_options_def select_options_def sample_openai_response_def
          sample_anthropic_response_def sample_openai_result_def sample_claude_result_def
          JSON_parse_sample_def verdict_A_def)
  have s: "selected ?R = Some ?S" by simp
  have w: "winner ?S \<noteq> ''claude''" by simp
  from C8_selection_references_result [OF d s] w
  have "\<exists>a. fst (getOpenAIResponse ?E ''q'' ''sys'' select_options []) = Inr a \<and>
            openai ?R = Some a \<and> selection.content ?S = openai_result.content a"
    by blast
  then have "\<exists>a. fst (getOpenAIResponse ?E ''q'' ''sys'' select_options []) = Inr a \<and>
        a = sample_openai_result ''answer A'' \<and> openai_result.content a = Str ''answer A''"
    by auto
  with d show ?thesis by (rule conjI)
qed

subsection \<open>Any label but A is Claude\<close>

text \<open>
  C9 (amended). When the judge reply parses to a value other than \<^verbatim>\<open>null\<close>, the three
  properties are read without error, the winner is \<^verbatim>\<open>openai\<close> exactly when \<^verbatim>\<open>selected\<close> is
  the string \<^verbatim>\<open>A\<close> and \<^verbatim>\<open>claude\<close> otherwise, \<^verbatim>\<open>reasoning\<close> and \<^verbatim>\<open>scores\<close> are passed on as
  they are (possibly \<^verbatim>\<open>undefined\<close>), and the outcome is not the fallback one. (\<^verbatim>\<open>JSON.parse\<close>
  never returns \<^verbatim>\<open>undefined\<close>.)
\<close>

theorem C9_label_mapping:
  assumes "judge_call E a c p crit tr = Inr evaluation"
      and "JSON_parse E (ToString (openai_result.content evaluation)) = Inr parsed"
      and "parsed \<noteq> JNull" and "parsed \<noteq> JUndefined"
  shows "\<exists>sel rsn scs.
           get_prop parsed ''selected'' = Inr sel \<and>
           get_prop parsed ''reasoning'' = Inr rsn \<and>
           get_prop parsed ''scores'' = Inr scs \<and>
           fst (selectBestResponse E a c p crit tr) =
             Inr \<lparr>winner = (if sel = JStr ''A'' then ''openai'' else ''claude''),
                  selection.content =
                    (if sel = JStr ''A'' then openai_result.content a
                     else claude_result.content c),
                  reasoning = rsn,
                  scores = Some scs\<rparr> \<and>
           fst (selectBestResponse E a c p crit tr) \<noteq> Inr (default_selection c)"
  using assms
  by (cases parsed)
     (simp_all add: selectBestResponse_cases parse_evaluation_def default_selection_def)

text \<open>
  The judge answers \<^verbatim>\<open>42\<close>: Claude wins, with undefined reasoning and scores.
\<close>

theorem C9_label_mapping_witness:
  "judge_call (sample_env (Inr ''answer A'') (Inr ''answer B'') (Inr ''42''))
       (sample_openai_result ''answer A'') (sample_claude_result ''answer B'') ''q'' None []
     = Inr (sample_openai_result ''42'') \<and>
   JSON_parse (sample_env (Inr ''answer A'') (Inr ''answer B'') (Inr ''42''))
       (ToString (openai_result.content (sample_openai_result ''42'')))
     = Inr (JNum 42) \<and>
   JNum 42 \<noteq> JNull \<and> JNum 42 \<noteq> JUndefined \<and>
   fst (selectBestResponse (sample_env (Inr ''answer A'') (Inr ''answer B'') (Inr ''42''))
       (sample_openai_result ''answer A'') (sample_claude_result ''answer B'') ''q'' None [])
     = Inr \<lparr>winner = ''claude'', selection.content = Str ''answer B'',
            reasoning = JUndefined, scores = Some JUndefined\<rparr> \<and>
   fst (selectBestResponse (sample_env (Inr ''answer A'') (Inr ''answer B'') (Inr ''42''))
       (sample_openai_result ''answer A'') (sample_claude_result ''answer B'') ''q'' None [])
     \<noteq> Inr (default_selection (sample_claude_result ''answer B''))"
proof -
  let ?a = "sample_openai_result ''answer A''" and ?c = "sample_claude_result ''answer B''"
  let ?E = "sample_env (Inr ''answer A'') (Inr ''answer B'') (Inr ''42'')"
  have j: "judge_call ?E ?a ?c ''q'' None [] = Inr (sample_openai_result ''42'')"
    by (simp add: call_defs sample_env_def is_judge_request_def sample_openai_response_def
          sample_openai_result_def judge_options_def no_options_def)
  have p: "JSON_parse ?E (ToString (openai_result.content (sample_openai_result ''42'')))
              = Inr (JNum 42)"
    by (simp add: sample_defs)
  have n: "JNum 42 \<noteq> JNull" "JNum 42 \<noteq> JUndefined" by simp_all
  from C9_label_mapping [OF j p n] obtain sel rsn scs where
    g: "get_prop (JNum 42) ''selected'' = Inr sel"
       "get_prop (JNum 42) ''reasoning'' = Inr rsn"
       "get_prop (JNum 42) ''scores'' = Inr scs"
    and out: "fst (selectBestResponse ?E ?a ?c ''q'' None []) =
             Inr \<lparr>winner = (if sel = JStr ''A'' then ''openai'' else ''claude''),
                  selection.content =
                    (if sel = JStr ''A'' then openai_result.content ?a
                     else claude_result.content ?c),
                  reasoning = rsn,
                  scores = Some scs\<rparr>"
    and ne: "fst (selectBestResponse ?E ?a ?c ''q'' None []) \<noteq> Inr (default_selection ?c)"
    by (elim exE conjE) (rule that)
  from g have "sel = JUndefined" "rsn = JUndefined" "scs = JUndefined" by simp_all
  with out have "fst (selectBestResponse ?E ?a ?c ''q'' None []) =
      Inr \<lparr>winner = ''claude'', selection.content = Str ''answer B'',
            reasoning = JUndefined, scores = Some JUndefined\<rparr>"
    by (simp add: sample_claude_result_def)
  with j p n ne show ?thesis by blast
qed

text \<open>
  C9 as stated fails: the reply \<^verbatim>\<open>null\<close> parses, to \<^verbatim>\<open>null\<close>, and reading \<^verbatim>\<open>parsed.selected\<close>
  throws inside \<^verbatim>\<open>try\<close>, so the outcome is the fallback one, without the key \<^verbatim>\<open>scores\<close>.
\<close>

theorem C9_null_reply_counterexample:
  "judge_call (sample_env (Inr ''answer A'') (Inr ''answer B'') (Inr ''null''))
       (sample_openai_result ''answer A'') (sample_claude_result ''answer B'') ''q'' None []
     = Inr (sample_openai_result ''null'') \<and>
   JSON_parse (sample_env (Inr ''answer A'') (Inr ''answer B'') (Inr ''null''))
       (ToString (openai_result.content (sample_openai_result ''null'')))
     = Inr JNull \<and>
   fst (selectBestResponse (sample_env (Inr ''answer A'') (Inr ''answer B'') (Inr ''null''))
       (sample_openai_result ''answer A'') (sample_claude_result ''answer B'') ''q'' None [])
     = Inr \<lparr>winner = ''claude'', selection.content = Str ''answer B'',
            reasoning = JStr ''Default selection due to evaluation error'', scores = None\<rparr>"
  by (simp add: selectBestResponse_def parse_evaluation_def default_selection_def
        call_defs sample_defs)

subsection \<open>A zero option is replaced by the default\<close>

text \<open>
  C10. Each backend call issues the request built from its options. When the options hold
  temperature 0, the OpenAI request has temperature 0.7; when they hold \<^verbatim>\<open>maxTokens\<close> 0, both
  requests have \<^verbatim>\<open>max_tokens\<close> 2000.
\<close>

theorem C10_falsy_options_defaulted:
  "snd (getOpenAIResponse E p s opts tr) = tr @ [OpenAI_call (openai_params E p s opts)] \<and>
   snd (getClaudeResponse E p s opts tr) = tr @ [Anthropic_call (anthropic_params p s opts)] \<and>
   (options.temperature opts = Some 0 \<longrightarrow>
      openai_request.temperature (openai_params E p s opts) = 7 / 10) \<and>
   (maxTokens opts = Some 0 \<longrightarrow>
      openai_request.max_tokens (openai_params E p s opts) = 2000 \<and>
      anthropic_request.max_tokens (anthropic_params p s opts) = 2000)"
  by (simp add: getOpenAIResponse_trace getClaudeResponse_trace openai_params_def
        anthropic_params_def)

text \<open>
  Both options are 0.
\<close>

theorem C10_falsy_options_defaulted_witness:
  "options.temperature (no_options\<lparr>options.temperature := Some 0, maxTokens := Some 0\<rparr>) = Some 0 \<and>
   maxTokens (no_options\<lparr>options.temperature := Some 0, maxTokens := Some 0\<rparr>) = Some 0 \<and>
   snd (getOpenAIResponse (sample_env (Inr ''answer A'') (Inr ''answer B'') (Inr verdict_A_text))
          ''q'' ''sys'' (no_options\<lparr>options.temperature := Some 0, maxTokens := Some 0\<rparr>) []) =
     [OpenAI_call \<lparr>openai_request.model = ''gpt-4-turbo-preview'',
                   openai_request.messages = [(''system'', ''sys''), (''user'', ''q'')],
                   openai_request.temperature = 7 / 10,
                   openai_request.max_tokens = 2000\<rparr>] \<and>
   snd (getClaudeResponse (sample_env (Inr ''answer A'') (Inr ''answer B'') (Inr verdict_A_text))
          ''q'' ''sys'' (no_options\<lparr>options.temperature := Some 0, maxTokens := Some 0\<rparr>) []) =
     [Anthropic_call \<lparr>anthropic_request.model = ''claude-3-5-sonnet-20241022'',
                      anthropic_request.max_tokens = 2000,
                      system = ''sys'',
                      anthropic_request.messages = [(''user'', ''q'')]\<rparr>]"
proof -
  let ?E = "sample_env (Inr ''answer A'') (Inr ''answer B'') (Inr verdict_A_text)"
  let ?o = "no_options\<lparr>options.temperature := Some 0, maxTokens := Some 0\<rparr>"
  have t: "options.temperature ?o = Some 0" and m: "maxTokens ?o = Some 0"
    by simp_all
  from C10_falsy_options_defaulted [of ?E "''q''" "''sys''" ?o "[]"] t m
  have tr: "snd (getOpenAIResponse ?E ''q'' ''sys'' ?o []) = [OpenAI_call (openai_params ?E ''q'' ''sys'' ?o)]"
     "snd (getClaudeResponse ?E ''q'' ''sys'' ?o []) = [Anthropic_call (anthropic_params ''q'' ''sys'' ?o)]"
    and d: "openai_request.temperature (openai_params ?E ''q'' ''sys'' ?o) = 7 / 10"
      "openai_request.max_tokens (openai_params ?E ''q'' ''sys'' ?o) = 2000"
      "anthropic_request.max_tokens (anthropic_params ''q'' ''sys'' ?o) = 2000"
    by simp_all
  have o: "openai_params ?E ''q'' ''sys'' ?o =
      \<lparr>openai_request.model = ''gpt-4-turbo-preview'',
       openai_request.messages = [(''system'', ''sys''), (''user'', ''q'')],
       openai_request.temperature = openai_request.temperature (openai_params ?E ''q'' ''sys'' ?o),
       openai_request.max_tokens = openai_request.max_tokens (openai_params ?E ''q'' ''sys'' ?o)\<rparr>"
    by (simp add: openai_params_def openai_model_def sample_env_def no_options_def)
  have c: "anthropic_params ''q'' ''sys'' ?o =
      \<lparr>anthropic_request.model = ''claude-3-5-sonnet-20241022'',
       anthropic_request.max_tokens = anthropic_request.max_tokens (anthropic_params ''q'' ''sys'' ?o),
       system = ''sys'',
       anthropic_request.messages = [(''user'', ''q'')]\<rparr>"
    by (simp add: anthropic_params_def no_options_def)
  from o c d tr t m show ?thesis by simp
qed

end
